theory Spec2Isabelle
  imports Main
begin

section \<open>Strings of the export controller\<close>

text \<open>
  A JavaScript string is a sequence of UTF-16 code units and \<open>.length\<close> counts them.
  The model uses \<open>string\<close>: one \<open>char\<close> stands for one code unit, so it ranges over
  the strings whose code units are below 256. The character classes of the controller's
  regular expression and of \<open>trim\<close> are the ECMAScript ones cut down to that range.
\<close>

definition isSpace :: "char \<Rightarrow> bool" where
  \<comment> \<open>\<open>\s\<close> and the characters \<open>trim\<close> strips: TAB, LF, VT, FF, CR, space, NBSP\<close>
  "isSpace c = ((of_char c :: nat) \<in> {9, 10, 11, 12, 13, 32, 160})"

definition isLineTerminator :: "char \<Rightarrow> bool" where
  \<comment> \<open>what \<open>.\<close> does not match (no \<open>s\<close> flag): LF and CR\<close>
  "isLineTerminator c = ((of_char c :: nat) \<in> {10, 13})"

definition isUpper :: "char \<Rightarrow> bool" where
  "isUpper c = (65 \<le> (of_char c :: nat) \<and> (of_char c :: nat) \<le> 90)"

definition isLower :: "char \<Rightarrow> bool" where
  "isLower c = (97 \<le> (of_char c :: nat) \<and> (of_char c :: nat) \<le> 122)"

definition trim :: "string \<Rightarrow> string" where
  "trim s = rev (dropWhile isSpace (rev (dropWhile isSpace s)))"

fun startsWith :: "string \<Rightarrow> string \<Rightarrow> bool" where
  "startsWith s [] = True"
| "startsWith [] (p # ps) = False"
| "startsWith (c # cs) (p # ps) = (c = p \<and> startsWith cs ps)"

fun includes_str :: "string \<Rightarrow> string \<Rightarrow> bool" where
  \<comment> \<open>\<open>s.includes(sub)\<close>: \<open>sub\<close> occurs somewhere in \<open>s\<close>\<close>
  "includes_str [] sub = (sub = [])"
| "includes_str (c # cs) sub = (startsWith (c # cs) sub \<or> includes_str cs sub)"

definition truthy :: "string option \<Rightarrow> bool" where
  \<comment> \<open>JavaScript truthiness of an optional string: defined and not empty\<close>
  "truthy v = (case v of None \<Rightarrow> False | Some s \<Rightarrow> s \<noteq> [])"

definition orEmpty :: "string option \<Rightarrow> string" where
  \<comment> \<open>\<open>v || ""\<close>\<close>
  "orEmpty v = (case v of None \<Rightarrow> [] | Some s \<Rightarrow> s)"

subsection \<open>The title boundary pattern\<close>

text \<open>
  \<open>/^(.{0,150}?)(?:\s*,\s*[A-Z][a-z]+\s+[A-Z][a-z]+)/\<close>.
  \<open>boundaryAt\<close> decides whether the non-capturing group matches at the start of a
  string. Each starred or plussed class is followed by a character outside that class, so
  the group matches exactly when the longest runs do.
\<close>

definition boundaryAt :: "string \<Rightarrow> bool" where
  "boundaryAt s =
     (case dropWhile isSpace s of
        [] \<Rightarrow> False
      | c # s1 \<Rightarrow>
          c = CHR '','' \<and>
          (case dropWhile isSpace s1 of
             [] \<Rightarrow> False
           | u # s2 \<Rightarrow>
               isUpper u \<and>
               (case s2 of
                  [] \<Rightarrow> False
                | l # s3 \<Rightarrow>
                    isLower l \<and>
                    (case dropWhile isLower s3 of
                       [] \<Rightarrow> False
                     | w # s4 \<Rightarrow>
                         isSpace w \<and>
                         (case dropWhile isSpace s4 of
                            [] \<Rightarrow> False
                          | u2 # s5 \<Rightarrow>
                              isUpper u2 \<and>
                              (case s5 of [] \<Rightarrow> False | l2 # s6 \<Rightarrow> isLower l2))))))"

text \<open>
  The lazy group \<open>(.{0,150}?)\<close> tries the prefixes of length 0, 1, ... in turn, each
  made of characters other than line terminators; \<open>n\<close> is how many more characters it
  may take, \<open>acc\<close> the characters taken so far, newest first. The result is capture
  group 1 of the first match, \<open>None\<close> when \<open>match\<close> returns \<open>null\<close>.
\<close>

fun lazyGroup :: "nat \<Rightarrow> string \<Rightarrow> string \<Rightarrow> string option" where
  "lazyGroup n acc [] = (if boundaryAt [] then Some (rev acc) else None)"
| "lazyGroup 0 acc (c # cs) = (if boundaryAt (c # cs) then Some (rev acc) else None)"
| "lazyGroup (Suc n) acc (c # cs) =
     (if boundaryAt (c # cs) then Some (rev acc)
      else if isLineTerminator c then None
      else lazyGroup n (c # acc) cs)"

definition titleMatch :: "string \<Rightarrow> string option" where
  "titleMatch s = lazyGroup 150 [] s"

section \<open>Card records and the card store\<close>

text \<open>
  Modelled from the spec: the card record type, declared in \<open>models/cardStore\<close>, which
  is not among the sources. The spec gives \<open>normalized\<close> as a struct of ten plain-text
  fields that may be empty, and \<open>autoTitle\<close> and \<open>autoDescription\<close> as optional
  text. \<open>confidenceByField\<close> is left out: the export controller neither reads nor
  writes it. The field \<open>set\<close> is named \<open>set_name\<close> here. The store is the
  controller's \<open>cardsStore\<close>, a map from card id to record; the handlers change the
  record they got from the store in place and store it again, which the model writes as
  one update of the map.
\<close>

record normalizedFields =
  year :: string
  set_name :: string
  cardNumber :: string
  title :: string
  playerFirstName :: string
  playerLastName :: string
  gradingCompany :: string
  grade :: string
  cert :: string
  caption :: string

record card =
  normalized :: normalizedFields
  autoTitle :: "string option"
  autoDescription :: "string option"

type_synonym cardsStore = "string \<rightharpoonup> card"

section \<open>Field integrity validation\<close>

subsection \<open>The swap safety check\<close>

text \<open>
  Lines 33 to 45 (CSV) and 143 to 155 (Sheets), the same text in both handlers:
  when both fields are truthy, \<open>autoTitle\<close> is longer than 200 and \<open>autoDescription\<close>
  shorter than 100, the two are exchanged and the record is stored again.
\<close>

definition needsSwap :: "card \<Rightarrow> bool" where
  "needsSwap c =
     (case (autoTitle c, autoDescription c) of
        (Some t, Some d) \<Rightarrow> t \<noteq> [] \<and> d \<noteq> [] \<and> length t > 200 \<and> length d < 100
      | _ \<Rightarrow> False)"

definition swapFields :: "card \<Rightarrow> card" where
  "swapFields c = c\<lparr>autoTitle := autoDescription c, autoDescription := autoTitle c\<rparr>"

definition safetyCheck :: "cardsStore \<Rightarrow> string \<Rightarrow> card \<Rightarrow> card \<times> cardsStore" where
  \<comment> \<open>the record the handler goes on with, and the store after \<open>cardsStore.set\<close>\<close>
  "safetyCheck store cardId c =
     (if needsSwap c then (swapFields c, store(cardId \<mapsto> swapFields c)) else (c, store))"

subsection \<open>The working listing title\<close>

definition extractTitle :: "string \<Rightarrow> string" where
  \<comment> \<open>the boundary match, or else the first 100 characters, trimmed\<close>
  "extractTitle lt =
     (case titleMatch lt of
        Some g \<Rightarrow> if g \<noteq> [] then trim g else trim (take 100 lt)
      | None \<Rightarrow> trim (take 100 lt))"

definition csvListingTitle :: "card \<Rightarrow> string" where
  \<comment> \<open>lines 55 to 84 of the CSV handler\<close>
  "csvListingTitle c =
     (let listingTitle =
            (if truthy (autoTitle c) \<and> trim (orEmpty (autoTitle c)) \<noteq> []
             then orEmpty (autoTitle c) else title (normalized c))
      in if listingTitle \<noteq> [] \<and> truthy (autoDescription c) then
           (let d = orEmpty (autoDescription c);
                listingTitle1 =
                  (if length listingTitle > 150 \<and> includes_str listingTitle (take 50 d)
                   then extractTitle listingTitle else listingTitle)
            in if listingTitle1 = d
               then (if title (normalized c) \<noteq> [] then title (normalized c) else ''Untitled'')
               else listingTitle1)
         else listingTitle)"

definition sheetsListingTitle :: "card \<Rightarrow> string" where
  \<comment> \<open>lines 213 to 265 of the Sheets handler: the same chain, then the final safety check\<close>
  "sheetsListingTitle c =
     (let listingTitle =
            (if truthy (autoTitle c) \<and> trim (orEmpty (autoTitle c)) \<noteq> []
             then orEmpty (autoTitle c) else title (normalized c));
          listingTitle2 =
            (if listingTitle \<noteq> [] \<and> truthy (autoDescription c) then
               (let d = orEmpty (autoDescription c);
                    listingTitle1 =
                      (if length listingTitle > 150 \<and> includes_str listingTitle (take 50 d)
                       then extractTitle listingTitle else listingTitle)
                in if listingTitle1 = d
                   then (if title (normalized c) \<noteq> [] then title (normalized c) else ''Untitled'')
                   else listingTitle1)
             else listingTitle)
      in if listingTitle2 \<noteq> [] \<and> truthy (autoDescription c) then
           (let d = orEmpty (autoDescription c)
            in if listingTitle2 = d \<or>
                  (length listingTitle2 > 200 \<and> includes_str listingTitle2 (take 50 d))
               then (if title (normalized c) \<noteq> [] then title (normalized c)
                     else ''Untitled Card'')
               else listingTitle2)
         else listingTitle2)"


section \<open>Configuration\<close>

text \<open>
  The configuration module reads the process environment once. \<open>envOr v d\<close> is
  \<open>process.env.X || d\<close>. \<open>parseJsonFromEnv\<close> calls \<open>JSON.parse\<close>, a library
  function: \<open>jsonTruthy\<close> says of a text whether parsing it gives a truthy value,
  and only that truth value is kept, since the controller only tests it.
\<close>

definition envOr :: "string option \<Rightarrow> string \<Rightarrow> string" where
  "envOr v d = (case v of None \<Rightarrow> d | Some s \<Rightarrow> if s = [] then d else s)"

record appConfig =
  nodeEnv :: string
  serviceAccountKey :: string
  serviceAccountKeyJson :: bool
  spreadsheetId :: string
  sheetName :: string

definition config :: "(string \<rightharpoonup> string) \<Rightarrow> (string \<Rightarrow> bool) \<Rightarrow> appConfig" where
  "config env jsonTruthy =
     \<lparr> nodeEnv = envOr (env ''NODE_ENV'') ''development'',
       serviceAccountKey =
         envOr (env ''GOOGLE_SHEETS_SERVICE_ACCOUNT_KEY'')
           ''./credentials/google-sheets-credentials.json'',
       serviceAccountKeyJson =
         (case env ''GOOGLE_SHEETS_CREDENTIALS_JSON'' of
            None \<Rightarrow> False
          | Some v \<Rightarrow> v \<noteq> [] \<and> jsonTruthy v),
       spreadsheetId = envOr (env ''GOOGLE_SHEETS_SPREADSHEET_ID'') [],
       sheetName = envOr (env ''GOOGLE_SHEETS_SHEET_NAME'') ''Cards'' \<rparr>"

section \<open>Requests, responses and errors\<close>

text \<open>
  What the handler's \<open>catch\<close> can receive. A spreadsheet call rejects with a
  \<open>rejection\<close>: an \<open>Error\<close> with its message, or some other value. The
  constructors of \<open>exn\<close> keep apart where an exception was raised; the handler itself
  only reads the message.
\<close>

datatype rejection =
    RejectError string  \<comment> \<open>an \<open>Error\<close> instance with this message\<close>
  | RejectOther         \<comment> \<open>a value that is not an \<open>Error\<close> instance\<close>

datatype exn =
    ValidationError string  \<comment> \<open>an \<open>Error\<close> thrown by the post-build checks\<close>
  | TypeError string        \<comment> \<open>a property read on \<open>undefined\<close>\<close>
  | ServiceError string     \<comment> \<open>an \<open>Error\<close> a spreadsheet call rejected with\<close>
  | NonError                \<comment> \<open>a rejection value that is not an \<open>Error\<close> instance\<close>

definition raised :: "rejection \<Rightarrow> exn" where
  "raised r = (case r of RejectError m \<Rightarrow> ServiceError m | RejectOther \<Rightarrow> NonError)"

definition errorMessage :: "exn \<Rightarrow> string" where
  \<comment> \<open>\<open>error instanceof Error ? error.message : "Unknown error"\<close>\<close>
  "errorMessage e =
     (case e of
        ValidationError m \<Rightarrow> m
      | TypeError m \<Rightarrow> m
      | ServiceError m \<Rightarrow> m
      | NonError \<Rightarrow> ''Unknown error'')"

datatype response =
    CsvAttachment string "(string \<times> string) list"
      \<comment> \<open>status 200, \<open>text/csv\<close>: the card id of the file name, the one record as columns\<close>
  | ErrorJson nat string "string option"
      \<comment> \<open>status, \<open>error\<close>, \<open>details\<close> (left out of the body when undefined)\<close>
  | SheetsSuccess string string string nat
      \<comment> \<open>status 200: \<open>spreadsheetId\<close>, \<open>sheetName\<close>, \<open>sheetUrl\<close>, \<open>row\<close>;
          the \<open>message\<close> of the body is a constant\<close>

record sheetsBody =
  bodyCardId :: "string option"
  bodySpreadsheetId :: "string option"
  bodySheetName :: "string option"

section \<open>CSV export\<close>

definition csvData :: "card \<Rightarrow> string \<Rightarrow> (string \<times> string) list" where
  "csvData c listingTitle =
     [(''Year'', year (normalized c)),
      (''Set'', set_name (normalized c)),
      (''Card Number'', cardNumber (normalized c)),
      (''Listing Title'', listingTitle),
      (''Player First Name'', playerFirstName (normalized c)),
      (''Player Last Name'', playerLastName (normalized c)),
      (''Grading Company'', gradingCompany (normalized c)),
      (''Grade'', grade (normalized c)),
      (''Cert'', cert (normalized c)),
      (''Listing Caption'', caption (normalized c)),
      (''Auto Description'', orEmpty (autoDescription c))]"

definition csvHandler :: "cardsStore \<Rightarrow> string option \<Rightarrow> response \<times> cardsStore" where
  \<comment> \<open>\<open>POST /csv\<close>, given \<open>req.body.cardId\<close>: the response and the card store after
      the call; on a record of the type above nothing in the \<open>try\<close> block throws\<close>
  "csvHandler store cardId =
     (if \<not> truthy cardId then (ErrorJson 400 ''Card ID is required'' None, store)
      else case store (orEmpty cardId) of
             None \<Rightarrow> (ErrorJson 404 ''Card not found'' None, store)
           | Some card0 \<Rightarrow>
               (let (c, store') = safetyCheck store (orEmpty cardId) card0
                in (CsvAttachment (orEmpty cardId) (csvData c (csvListingTitle c)), store')))"

section \<open>Sheets export\<close>

subsection \<open>Header classification\<close>

definition classifyHeaders :: "string list list \<Rightarrow> nat \<times> bool" where
  \<comment> \<open>lines 308 to 361: \<open>autoDescriptionColumnIndex\<close> and \<open>needsHeaderUpdate\<close>
      from the values read from the tab\<close>
  "classifyHeaders vals =
     (case vals of
        [] \<Rightarrow> (10, False)
      | existingHeaders # _ \<Rightarrow>
          if length existingHeaders = 12 \<and> existingHeaders ! 11 = ''Auto Description'' then
            (if existingHeaders ! 10 = ''Auto Title'' \<or>
                existingHeaders ! 10 = ''Auto Description''
             then (11, existingHeaders ! 10 = ''Auto Description'')
             else (11, True))
          else if length existingHeaders = 11 \<and> existingHeaders ! 10 = ''Auto Description''
          then (10, False)
          else (if length existingHeaders > 11 then 11 else 10, True))"

subsection \<open>Row construction and the post-build checks\<close>

fun showNat :: "nat \<Rightarrow> string" where
  \<comment> \<open>a number in a template string: its decimal digits\<close>
  "showNat n =
     (if n < 10 then [''0123456789'' ! n]
      else showNat (n div 10) @ [''0123456789'' ! (n mod 10)])"

declare showNat.simps [simp del]

definition at :: "string list \<Rightarrow> nat \<Rightarrow> string option" where
  \<comment> \<open>\<open>row[i]\<close>, \<open>undefined\<close> outside the array\<close>
  "at row i = (if i < length row then Some (row ! i) else None)"

definition rowData :: "card \<Rightarrow> string \<Rightarrow> nat \<Rightarrow> string list" where
  \<comment> \<open>lines 364 to 420; \<open>String(x || "")\<close> of a string is the string\<close>
  "rowData c listingTitle autoDescriptionColumnIndex =
     (let safeListingTitle = listingTitle;
          safeAutoDescription = orEmpty (autoDescription c)
      in if autoDescriptionColumnIndex = 11 then
           (let safeAutoTitle =
                  (if truthy (autoTitle c) then orEmpty (autoTitle c) else safeListingTitle)
            in [year (normalized c), set_name (normalized c), cardNumber (normalized c),
                safeListingTitle,
                playerFirstName (normalized c), playerLastName (normalized c),
                gradingCompany (normalized c), grade (normalized c), cert (normalized c),
                caption (normalized c),
                safeAutoTitle,
                safeAutoDescription])
         else
           [year (normalized c), set_name (normalized c), cardNumber (normalized c),
            safeListingTitle,
            playerFirstName (normalized c), playerLastName (normalized c),
            gradingCompany (normalized c), grade (normalized c), cert (normalized c),
            caption (normalized c),
            safeAutoDescription])"

definition validateRow :: "string list \<Rightarrow> nat \<Rightarrow> exn option" where
  \<comment> \<open>lines 422 to 445: the error thrown, if any; the last branch is the log line
      that reads \<open>.length\<close> of both cells\<close>
  "validateRow row autoDescIndex =
     (let expectedLength = (if autoDescIndex = 11 then 12 else 11 :: nat)
      in if length row \<noteq> expectedLength then
           Some (ValidationError
             (''Row data array has incorrect length: '' @ showNat (length row) @
              '' instead of '' @ showNat expectedLength))
         else if truthy (at row 3) \<and> truthy (at row autoDescIndex) \<and>
                 at row 3 = at row autoDescIndex then
           Some (ValidationError ''Listing Title and Auto Description cannot be identical'')
         else if truthy (at row 3) \<and> truthy (at row autoDescIndex) \<and>
                 length (orEmpty (at row 3)) > length (orEmpty (at row autoDescIndex)) then
           Some (ValidationError
             ''Listing Title is longer than Auto Description - fields may be swapped'')
         else if at row 3 = None \<or> at row autoDescIndex = None then
           Some (TypeError ''Cannot read properties of undefined'')
         else None)"

definition buildRow :: "card \<Rightarrow> string \<Rightarrow> nat \<Rightarrow> exn + string list" where
  "buildRow c listingTitle autoDescriptionColumnIndex =
     (let row = rowData c listingTitle autoDescriptionColumnIndex
      in case validateRow row autoDescriptionColumnIndex of
           Some e \<Rightarrow> Inl e
         | None \<Rightarrow> Inr row)"


subsection \<open>The spreadsheet service\<close>

text \<open>
  The spreadsheet service is outside the program. The handler makes at most six calls,
  in a fixed order; \<open>sheetsApi\<close> gives what each of them answers, a rejection or the
  part of the answer the handler reads: the titles of the tabs, the values of the range
  \<open>A:Z\<close> (no values is the empty list). The calls the handler issues are recorded, a
  rejected call included.
\<close>

datatype apiCall =
    SpreadsheetsGet string                      \<comment> \<open>\<open>spreadsheetId\<close>\<close>
  | BatchUpdateAddSheet string string            \<comment> \<open>\<open>spreadsheetId\<close>, title of the new tab\<close>
  | ValuesGet string string                      \<comment> \<open>\<open>spreadsheetId\<close>, range\<close>
  | ValuesUpdate string string "string list"     \<comment> \<open>\<open>spreadsheetId\<close>, range, the row written\<close>

record sheetsApi =
  verifyResult :: "rejection option"                   \<comment> \<open>\<open>spreadsheets.get\<close>, line 269\<close>
  spreadsheetResult :: "rejection + string list"       \<comment> \<open>\<open>spreadsheets.get\<close>, line 275\<close>
  addSheetResult :: "rejection option"                 \<comment> \<open>\<open>spreadsheets.batchUpdate\<close>, line 282\<close>
  valuesResult :: "rejection + string list list"       \<comment> \<open>\<open>spreadsheets.values.get\<close>, line 299\<close>
  headerUpdateResult :: "rejection option"             \<comment> \<open>\<open>spreadsheets.values.update\<close>, line 492\<close>
  rowUpdateResult :: "rejection option"                \<comment> \<open>\<open>spreadsheets.values.update\<close>, line 513\<close>

definition isValuesUpdate :: "apiCall \<Rightarrow> bool" where
  "isValuesUpdate c = (case c of ValuesUpdate _ _ _ \<Rightarrow> True | _ \<Rightarrow> False)"

definition isWrite :: "apiCall \<Rightarrow> bool" where
  \<comment> \<open>the calls that change the spreadsheet\<close>
  "isWrite c =
     (case c of ValuesUpdate _ _ _ \<Rightarrow> True | BatchUpdateAddSheet _ _ \<Rightarrow> True | _ \<Rightarrow> False)"

definition callOnTab :: "string \<Rightarrow> string \<Rightarrow> apiCall \<Rightarrow> bool" where
  \<comment> \<open>the call addresses this spreadsheet and, where it names a tab, this tab\<close>
  "callOnTab sid tab call =
     (case call of
        SpreadsheetsGet s \<Rightarrow> s = sid
      | BatchUpdateAddSheet s t \<Rightarrow> s = sid \<and> t = tab
      | ValuesGet s r \<Rightarrow> s = sid \<and> r = tab @ ''!A:Z''
      | ValuesUpdate s r row \<Rightarrow> s = sid \<and> startsWith r (tab @ ''!A''))"

subsection \<open>Header and row writes\<close>

definition headers :: "nat \<Rightarrow> string list" where
  "headers autoDescriptionColumnIndex =
     (if autoDescriptionColumnIndex = 11 then
        [''Year'', ''Set'', ''Card Number'', ''Listing Title'', ''Player First Name'',
         ''Player Last Name'', ''Grading Company'', ''Grade'', ''Cert'', ''Listing Caption'',
         ''Auto Title'', ''Auto Description'']
      else
        [''Year'', ''Set'', ''Card Number'', ''Listing Title'', ''Player First Name'',
         ''Player Last Name'', ''Grading Company'', ''Grade'', ''Cert'', ''Listing Caption'',
         ''Auto Description''])"

definition writeSheet ::
  "sheetsApi \<Rightarrow> string \<Rightarrow> string \<Rightarrow> nat \<Rightarrow> bool \<Rightarrow> nat \<Rightarrow> string list \<Rightarrow>
   rejection option \<times> apiCall list" where
  \<comment> \<open>lines 448 to 520: the rejection met, if any, and the calls issued\<close>
  "writeSheet api sid tab nextRow needsHeaderUpdate autoDescriptionColumnIndex row =
     (let headerRange = tab @ (if autoDescriptionColumnIndex = 11 then ''!A1:L1'' else ''!A1:K1'');
          headerCalls =
            (if nextRow = 1 \<or> needsHeaderUpdate
             then [ValuesUpdate sid headerRange (headers autoDescriptionColumnIndex)] else []);
          endColumn = (if autoDescriptionColumnIndex = 11 then ''L'' else ''K'');
          range = tab @ ''!A'' @ showNat nextRow @ '':'' @ endColumn @ showNat nextRow
      in if headerCalls \<noteq> [] \<and> headerUpdateResult api \<noteq> None
         then (headerUpdateResult api, headerCalls)
         else (rowUpdateResult api, headerCalls @ [ValuesUpdate sid range row]))"

definition sheetsExport ::
  "sheetsApi \<Rightarrow> string \<Rightarrow> string \<Rightarrow> card \<Rightarrow> string \<Rightarrow> (exn + response) \<times> apiCall list" where
  \<comment> \<open>lines 267 to 534: an exception (\<open>Inl\<close>) or the response sent, and the calls issued\<close>
  "sheetsExport api sid tab c listingTitle =
     (case verifyResult api of
        Some e \<Rightarrow>
          (Inr (ErrorJson 404
                  (''Spreadsheet not found. Please check the spreadsheet ID: '' @ sid) None),
           [SpreadsheetsGet sid])
      | None \<Rightarrow>
          (case spreadsheetResult api of
             Inl e \<Rightarrow> (Inl (raised e), [SpreadsheetsGet sid, SpreadsheetsGet sid])
           | Inr titles \<Rightarrow>
               (let sheetExists = (tab \<in> set titles);
                    pre = [SpreadsheetsGet sid, SpreadsheetsGet sid] @
                          (if sheetExists then [] else [BatchUpdateAddSheet sid tab])
                in case (if sheetExists then None else addSheetResult api) of
                     Some e \<Rightarrow> (Inl (raised e), pre)
                   | None \<Rightarrow>
                       (let read = pre @ [ValuesGet sid (tab @ ''!A:Z'')]
                        in case valuesResult api of
                             Inl e \<Rightarrow> (Inl (raised e), read)
                           | Inr vals \<Rightarrow>
                               (let nextRow = length vals + 1;
                                    (autoDescriptionColumnIndex, needsHeaderUpdate) =
                                      classifyHeaders vals
                                in case buildRow c listingTitle autoDescriptionColumnIndex of
                                     Inl e \<Rightarrow> (Inl e, read)
                                   | Inr row \<Rightarrow>
                                       (case writeSheet api sid tab nextRow needsHeaderUpdate
                                               autoDescriptionColumnIndex row of
                                          (Some e, ws) \<Rightarrow> (Inl (raised e), read @ ws)
                                        | (None, ws) \<Rightarrow>
                                            (Inr (SheetsSuccess sid tab
                                                    (''https://docs.google.com/spreadsheets/d/'' @ sid)
                                                    nextRow),
                                             read @ ws)))))))"

subsection \<open>The handler\<close>

definition resolveSpreadsheetId :: "appConfig \<Rightarrow> sheetsBody \<Rightarrow> string" where
  \<comment> \<open>line 157; the empty string stands for every falsy result\<close>
  "resolveSpreadsheetId cfg body =
     (if spreadsheetId cfg \<noteq> [] then spreadsheetId cfg else orEmpty (bodySpreadsheetId body))"

definition resolveSheetName :: "appConfig \<Rightarrow> sheetsBody \<Rightarrow> string" where
  \<comment> \<open>line 158\<close>
  "resolveSheetName cfg body =
     (if sheetName cfg \<noteq> [] then sheetName cfg
      else if truthy (bodySheetName body) then orEmpty (bodySheetName body)
      else ''Cards'')"

definition credentialsMissing :: "appConfig \<Rightarrow> bool \<Rightarrow> bool" where
  \<comment> \<open>lines 172 to 185; \<open>keyFileExists\<close> is \<open>fs.existsSync(credentialsPath)\<close>\<close>
  "credentialsMissing cfg keyFileExists =
     (\<not> serviceAccountKeyJson cfg \<and> \<not> (serviceAccountKey cfg \<noteq> [] \<and> keyFileExists))"

definition credentialsResponse :: "appConfig \<Rightarrow> response" where
  \<comment> \<open>lines 186 to 193\<close>
  "credentialsResponse cfg =
     (if nodeEnv cfg = ''production'' then
        ErrorJson 500
          (''Google Sheets service account credentials not found. In production, you must '' @
           ''set GOOGLE_SHEETS_CREDENTIALS_JSON environment variable. Copy the entire '' @
           ''contents of your service account JSON file and set it as an environment variable.'')
          None
      else
        ErrorJson 500
          (''Google Sheets service account credentials not found. Check '' @
           ''GOOGLE_SHEETS_SERVICE_ACCOUNT_KEY or GOOGLE_SHEETS_CREDENTIALS_JSON in .env'')
          None)"

definition sheetsTry ::
  "appConfig \<Rightarrow> bool \<Rightarrow> sheetsApi \<Rightarrow> cardsStore \<Rightarrow> sheetsBody \<Rightarrow>
   (exn + response) \<times> cardsStore \<times> apiCall list" where
  \<comment> \<open>the \<open>try\<close> block of \<open>POST /sheets\<close>: the exception raised or the response
      sent, the card store afterwards, and the spreadsheet calls issued\<close>
  "sheetsTry cfg keyFileExists api store body =
     (if \<not> truthy (bodyCardId body) then
        (Inr (ErrorJson 400 ''Card ID is required'' None), store, [])
      else case store (orEmpty (bodyCardId body)) of
             None \<Rightarrow> (Inr (ErrorJson 404 ''Card not found'' None), store, [])
           | Some card0 \<Rightarrow>
               (let (c, store') = safetyCheck store (orEmpty (bodyCardId body)) card0;
                    sid = resolveSpreadsheetId cfg body;
                    tab = resolveSheetName cfg body
                in if sid = [] then
                     (Inr (ErrorJson 400
                             (''Google Sheets Spreadsheet ID is required. Set '' @
                              ''GOOGLE_SHEETS_SPREADSHEET_ID in .env or provide spreadsheetId '' @
                              ''in request.'')
                             None),
                      store', [])
                   else if credentialsMissing cfg keyFileExists then
                     (Inr (credentialsResponse cfg), store', [])
                   else
                     (let (r, cs) = sheetsExport api sid tab c (sheetsListingTitle c)
                      in (r, store', cs))))"

definition sheetsHandler ::
  "appConfig \<Rightarrow> bool \<Rightarrow> sheetsApi \<Rightarrow> cardsStore \<Rightarrow> sheetsBody \<Rightarrow>
   response \<times> cardsStore \<times> apiCall list" where
  \<comment> \<open>\<open>POST /sheets\<close> with its \<open>catch\<close>, lines 535 to 542\<close>
  "sheetsHandler cfg keyFileExists api store body =
     (case sheetsTry cfg keyFileExists api store body of
        (Inl e, store', cs) \<Rightarrow>
          (ErrorJson 500 ''Google Sheets export failed''
             (if nodeEnv cfg = ''development'' then Some (errorMessage e) else None),
           store', cs)
      | (Inr r, store', cs) \<Rightarrow> (r, store', cs))"

section \<open>Sample data\<close>

abbreviation noFields :: normalizedFields where
  "noFields \<equiv>
     \<lparr>year = [], set_name = [], cardNumber = [], title = [], playerFirstName = [],
      playerLastName = [], gradingCompany = [], grade = [], cert = [], caption = []\<rparr>"

abbreviation longTitleCard :: card where
  "longTitleCard \<equiv>
     \<lparr>normalized = noFields, autoTitle = Some ''Hello World'',
      autoDescription = Some ''Short''\<rparr>"

abbreviation shortTitleCard :: card where
  "shortTitleCard \<equiv>
     \<lparr>normalized = noFields, autoTitle = Some ''Short'',
      autoDescription = Some ''Hello World''\<rparr>"

abbreviation swappedCard :: card where
  "swappedCard \<equiv>
     \<lparr>normalized = noFields, autoTitle = Some (replicate 201 (CHR ''a'')),
      autoDescription = Some ''1986 Fleer #57''\<rparr>"

abbreviation sampleConfig :: "string \<Rightarrow> appConfig" where
  "sampleConfig mode \<equiv>
     \<lparr>nodeEnv = mode, serviceAccountKey = ''./credentials/google-sheets-credentials.json'',
      serviceAccountKeyJson = False, spreadsheetId = ''sheet-1'', sheetName = ''Cards''\<rparr>"

abbreviation sampleApi :: "string list \<Rightarrow> string list list \<Rightarrow> sheetsApi" where
  "sampleApi titles vals \<equiv>
     \<lparr>verifyResult = None, spreadsheetResult = Inr titles, addSheetResult = None,
      valuesResult = Inr vals, headerUpdateResult = None, rowUpdateResult = None\<rparr>"

abbreviation sampleBody :: sheetsBody where
  "sampleBody \<equiv>
     \<lparr>bodyCardId = Some ''card-1'', bodySpreadsheetId = None, bodySheetName = None\<rparr>"

section \<open>Properties of the validation chain\<close>

lemma length_trim_le: "length (trim s) \<le> length s"
  unfolding trim_def
  by (metis length_dropWhile_le length_rev order_trans)

lemma lazyGroup_length: "lazyGroup n acc s = Some g \<Longrightarrow> length g \<le> length acc + n"
  by (induction n acc s rule: lazyGroup.induct) (auto split: if_splits)

lemma extractTitle_le: "length (extractTitle lt) \<le> 150"
proof (cases "titleMatch lt")
  case None
  have "length (trim (take 100 lt)) \<le> 100"
    using length_trim_le [of "take 100 lt"] by simp
  with None show ?thesis by (simp add: extractTitle_def)
next
  case (Some g)
  then have "length g \<le> 150"
    using lazyGroup_length [of 150 "[]" lt g] by (simp add: titleMatch_def)
  moreover have "length (trim g) \<le> length g" by (rule length_trim_le)
  moreover have "length (trim (take 100 lt)) \<le> 100"
    using length_trim_le [of "take 100 lt"] by simp
  ultimately show ?thesis using Some by (simp add: extractTitle_def)
qed

text \<open>The Sheets chain is the CSV chain followed by the final safety check.\<close>

lemma sheets_after_csv:
  "sheetsListingTitle c =
     (let lt = csvListingTitle c in
      if lt \<noteq> [] \<and> truthy (autoDescription c) then
        (if lt = orEmpty (autoDescription c) \<or>
            (length lt > 200 \<and> includes_str lt (take 50 (orEmpty (autoDescription c))))
         then (if title (normalized c) \<noteq> [] then title (normalized c) else ''Untitled Card'')
         else lt)
      else lt)"
  unfolding sheetsListingTitle_def csvListingTitle_def Let_def by (rule refl)

text \<open>
  Where the CSV chain's result comes from: the first choice untouched, the extraction, or
  the fallback of the identity check.
\<close>

lemma csv_shape:
  fixes c :: card
  defines "lt0 \<equiv> (if truthy (autoTitle c) \<and> trim (orEmpty (autoTitle c)) \<noteq> []
             then orEmpty (autoTitle c) else title (normalized c))"
    and "d \<equiv> orEmpty (autoDescription c)"
    and "fb \<equiv> (if title (normalized c) \<noteq> [] then title (normalized c) else ''Untitled'')"
  shows "csvListingTitle c = lt0 \<and>
           \<not> (lt0 \<noteq> [] \<and> truthy (autoDescription c) \<and> lt0 = d) \<and>
           \<not> (lt0 \<noteq> [] \<and> truthy (autoDescription c) \<and> length lt0 > 150 \<and>
              includes_str lt0 (take 50 d))
         \<or> csvListingTitle c = extractTitle lt0 \<and> lt0 \<noteq> [] \<and> truthy (autoDescription c) \<and>
             extractTitle lt0 \<noteq> d
         \<or> csvListingTitle c = fb \<and> lt0 \<noteq> [] \<and> truthy (autoDescription c)"
proof -
  define g where "g = (lt0 \<noteq> [] \<and> truthy (autoDescription c))"
  define e where "e = (length lt0 > 150 \<and> includes_str lt0 (take 50 d))"
  define lt1 where "lt1 = (if e then extractTitle lt0 else lt0)"
  have csv: "csvListingTitle c = (if g then (if lt1 = d then fb else lt1) else lt0)"
    unfolding csvListingTitle_def Let_def lt0_def d_def fb_def lt1_def g_def e_def
    by (rule refl)
  consider (skip) "\<not> g" | (ident) "g" "lt1 = d" | (emb) "g" "lt1 \<noteq> d" "e"
    | (plain) "g" "lt1 \<noteq> d" "\<not> e"
    by blast
  then show ?thesis
  proof cases
    case skip
    then have "csvListingTitle c = lt0" by (simp add: csv)
    with skip show ?thesis by (auto simp: g_def)
  next
    case ident
    then have "csvListingTitle c = fb" by (simp add: csv)
    with ident show ?thesis by (auto simp: g_def)
  next
    case emb
    then have "lt1 = extractTitle lt0" by (simp add: lt1_def)
    with emb have "csvListingTitle c = extractTitle lt0" "extractTitle lt0 \<noteq> d"
      by (simp_all add: csv)
    with emb show ?thesis by (auto simp: g_def)
  next
    case plain
    then have l: "lt1 = lt0" by (simp add: lt1_def)
    with plain have "csvListingTitle c = lt0" "lt0 \<noteq> d" by (simp_all add: csv)
    with plain show ?thesis by (auto simp: g_def e_def)
  qed
qed

text \<open>
  What the final safety check of the Sheets path changes: nothing, unless the CSV chain's
  result is the description itself and there is no normalized title.
\<close>

lemma sheets_final_check:
  "sheetsListingTitle c =
     (if title (normalized c) = [] \<and> csvListingTitle c \<noteq> [] \<and>
         autoDescription c = Some (csvListingTitle c)
      then ''Untitled Card'' else csvListingTitle c)"
proof -
  define lt where "lt = csvListingTitle c"
  define d where "d = orEmpty (autoDescription c)"
  define lt0 where "lt0 = (if truthy (autoTitle c) \<and> trim (orEmpty (autoTitle c)) \<noteq> []
             then orEmpty (autoTitle c) else title (normalized c))"
  define fb where
    "fb = (if title (normalized c) \<noteq> [] then title (normalized c) else ''Untitled'')"
  define fb' where
    "fb' = (if title (normalized c) \<noteq> [] then title (normalized c) else ''Untitled Card'')"
  define g where "g = (lt \<noteq> [] \<and> truthy (autoDescription c))"
  define long where "long = (length lt > 200 \<and> includes_str lt (take 50 d))"
  have sh: "sheetsListingTitle c = (if g then (if lt = d \<or> long then fb' else lt) else lt)"
    unfolding sheets_after_csv Let_def lt_def d_def fb'_def g_def long_def by (rule refl)
  have shape: "lt = lt0 \<and>
           \<not> (lt0 \<noteq> [] \<and> truthy (autoDescription c) \<and> lt0 = d) \<and>
           \<not> (lt0 \<noteq> [] \<and> truthy (autoDescription c) \<and> length lt0 > 150 \<and>
              includes_str lt0 (take 50 d))
         \<or> lt = extractTitle lt0 \<and> lt0 \<noteq> [] \<and> truthy (autoDescription c) \<and>
             extractTitle lt0 \<noteq> d
         \<or> lt = fb \<and> lt0 \<noteq> [] \<and> truthy (autoDescription c)"
    unfolding lt_def lt0_def d_def fb_def by (rule csv_shape)
  have some: "autoDescription c = Some lt \<longleftrightarrow> lt = d" if "g"
    using that by (cases "autoDescription c") (auto simp: g_def d_def truthy_def orEmpty_def)
  have nog: "\<not> (lt \<noteq> [] \<and> autoDescription c = Some lt)" if "\<not> g"
    using that by (auto simp: g_def truthy_def)
  have rhs: "(if title (normalized c) = [] \<and> lt \<noteq> [] \<and> autoDescription c = Some lt
              then ''Untitled Card'' else lt) =
             (if g \<and> lt = d \<and> title (normalized c) = [] then ''Untitled Card'' else lt)"
    using some nog by (cases g) (auto simp: g_def)
  have ident: "fb' = (if title (normalized c) = [] then ''Untitled Card'' else lt)"
    if "g" "lt = d"
  proof -
    from shape that have "lt = fb" by (auto simp: g_def)
    then show ?thesis by (auto simp: fb_def fb'_def)
  qed
  have longc: "fb' = lt" if "g" "lt \<noteq> d" "long"
  proof -
    have len: "length lt > 200" using that by (simp add: long_def)
    have "length (extractTitle lt0) \<le> 150" by (rule extractTitle_le)
    with len have ne: "lt \<noteq> extractTitle lt0" by auto
    from shape that ne have "lt = fb" by (auto simp: g_def long_def)
    moreover from this len have "title (normalized c) \<noteq> []"
      by (auto simp: fb_def split: if_splits)
    ultimately show ?thesis by (simp add: fb_def fb'_def)
  qed
  have "sheetsListingTitle c =
          (if g \<and> lt = d \<and> title (normalized c) = [] then ''Untitled Card'' else lt)"
    using ident longc by (cases g; cases "lt = d"; cases long) (simp_all add: sh)
  with rhs have "sheetsListingTitle c =
      (if title (normalized c) = [] \<and> lt \<noteq> [] \<and> autoDescription c = Some lt
       then ''Untitled Card'' else lt)"
    by simp
  then show ?thesis unfolding lt_def .
qed

text \<open>
  Claim C9, as amended. The listing title of the Sheets path is the one of the CSV path,
  except for the records on which the CSV value is not empty and equals
  \<open>autoDescription\<close> while \<open>normalized.title\<close> is empty: there the Sheets path's
  final safety check replaces it by the literal \<open>Untitled Card\<close>.
\<close>

theorem sheets_vs_csv_listingTitle:
  "sheetsListingTitle c =
     (if title (normalized c) = [] \<and> csvListingTitle c \<noteq> [] \<and>
         autoDescription c = Some (csvListingTitle c)
      then ''Untitled Card'' else csvListingTitle c)"
  by (rule sheets_final_check)

text \<open>
  The two paths on a record where they agree: the title is taken from \<open>autoTitle\<close>
  and is shorter than the description.
\<close>

theorem sheets_vs_csv_listingTitle_witness:
  "sheetsListingTitle
     \<lparr>normalized = noFields, autoTitle = Some ''1986 Fleer #57'',
      autoDescription = Some ''1986 Fleer basketball card #57, Michael Jordan''\<rparr> =
   ''1986 Fleer #57''"
  using sheets_vs_csv_listingTitle
    [of "\<lparr>normalized = noFields, autoTitle = Some ''1986 Fleer #57'',
          autoDescription = Some ''1986 Fleer basketball card #57, Michael Jordan''\<rparr>"]
  by (simp add: csvListingTitle_def truthy_def orEmpty_def trim_def isSpace_def)

text \<open>
  Claim C9 as stated fails: with \<open>autoTitle\<close> and \<open>autoDescription\<close> both
  \<open>Untitled\<close> and no normalized title, the CSV path exports \<open>Untitled\<close> and the
  Sheets path works with \<open>Untitled Card\<close>.
\<close>

theorem untitled_counterexample:
  "csvListingTitle
     \<lparr>normalized = noFields, autoTitle = Some ''Untitled'',
      autoDescription = Some ''Untitled''\<rparr> = ''Untitled'' \<and>
   sheetsListingTitle
     \<lparr>normalized = noFields, autoTitle = Some ''Untitled'',
      autoDescription = Some ''Untitled''\<rparr> = ''Untitled Card''"
  by (simp add: csvListingTitle_def sheetsListingTitle_def truthy_def orEmpty_def trim_def
      isSpace_def)

section \<open>Properties of the swap safety check\<close>

text \<open>
  Claim C3, as amended. For every record whose \<open>autoTitle\<close> and \<open>autoDescription\<close>
  are both present, with \<open>autoDescription\<close> not empty, \<open>autoTitle\<close> longer than 200
  and \<open>autoDescription\<close> shorter than 100, one pass exchanges the two fields and stores
  the exchanged record under the card id; a second pass on the result exchanges nothing
  and leaves record and store as they are.
\<close>

theorem swap_repair_idempotent:
  assumes "autoTitle c = Some t" and "autoDescription c = Some d"
    and "d \<noteq> []" and "length t > 200" and "length d < 100"
  shows "safetyCheck store cardId c = (swapFields c, store(cardId \<mapsto> swapFields c)) \<and>
         swapFields c = c\<lparr>autoTitle := Some d, autoDescription := Some t\<rparr> \<and>
         \<not> needsSwap (swapFields c) \<and>
         safetyCheck (store(cardId \<mapsto> swapFields c)) cardId (swapFields c) =
           (swapFields c, store(cardId \<mapsto> swapFields c))"
proof -
  from assms have t: "t \<noteq> []" by auto
  with assms have n: "needsSwap c" by (simp add: needsSwap_def)
  from assms have s: "swapFields c = c\<lparr>autoTitle := Some d, autoDescription := Some t\<rparr>"
    by (simp add: swapFields_def)
  from assms have m: "\<not> needsSwap (swapFields c)" by (simp add: s needsSwap_def)
  from n m s show ?thesis by (simp add: safetyCheck_def)
qed

theorem swap_repair_idempotent_witness:
  "safetyCheck Map.empty ''card-1''
     \<lparr>normalized = noFields, autoTitle = Some (replicate 201 (CHR ''a'')),
      autoDescription = Some ''short''\<rparr> =
   (\<lparr>normalized = noFields, autoTitle = Some ''short'',
      autoDescription = Some (replicate 201 (CHR ''a''))\<rparr>,
    [''card-1'' \<mapsto>
       \<lparr>normalized = noFields, autoTitle = Some ''short'',
        autoDescription = Some (replicate 201 (CHR ''a''))\<rparr>])"
  using swap_repair_idempotent
    [of "\<lparr>normalized = noFields, autoTitle = Some (replicate 201 (CHR ''a'')),
          autoDescription = Some ''short''\<rparr>"
        "replicate 201 (CHR ''a'')" "''short''" Map.empty "''card-1''"]
  by (simp add: swapFields_def)

text \<open>
  Claim C3 as stated fails: an \<open>autoDescription\<close> that is present and empty has
  length 0, below 100, yet the check's guard \<open>card.autoTitle && card.autoDescription\<close>
  is false and nothing is exchanged.
\<close>

theorem swap_empty_description_counterexample:
  "length (replicate 201 (CHR ''a'')) > 200 \<and> length ([] :: string) < 100 \<and>
   safetyCheck
     [''card-1'' \<mapsto>
        \<lparr>normalized = noFields, autoTitle = Some (replicate 201 (CHR ''a'')),
         autoDescription = Some []\<rparr>]
     ''card-1''
     \<lparr>normalized = noFields, autoTitle = Some (replicate 201 (CHR ''a'')),
      autoDescription = Some []\<rparr> =
   (\<lparr>normalized = noFields, autoTitle = Some (replicate 201 (CHR ''a'')),
      autoDescription = Some []\<rparr>,
    [''card-1'' \<mapsto>
       \<lparr>normalized = noFields, autoTitle = Some (replicate 201 (CHR ''a'')),
        autoDescription = Some []\<rparr>])"
  by (simp add: safetyCheck_def needsSwap_def)

section \<open>Properties of the header classification and the row builder\<close>

text \<open>
  Claim C5. For every existing header row \<open>h\<close> of 12 cells whose cell 11 is
  \<open>Auto Description\<close>, the description column index is 11, and the header needs no
  rewrite exactly when cell 10 is \<open>Auto Title\<close>.
\<close>

theorem classify_legacy12:
  "length h = 12 \<Longrightarrow> h ! 11 = ''Auto Description'' \<Longrightarrow>
   classifyHeaders (h # rest) = (11, h ! 10 \<noteq> ''Auto Title'')"
  by (simp add: classifyHeaders_def)

theorem classify_legacy12_witness:
  "length (headers 11) = 12 \<and> headers 11 ! 11 = ''Auto Description'' \<and>
   classifyHeaders [headers 11] = (11, False)"
  using classify_legacy12 [of "headers 11" "[]"] by (simp add: headers_def)

lemma classify_index: "fst (classifyHeaders vals) = 10 \<or> fst (classifyHeaders vals) = 11"
  by (auto simp: classifyHeaders_def split: list.splits)

lemma rowData_shape:
  assumes "idx = 10 \<or> idx = 11"
  shows "length (rowData c lt idx) = (if idx = 11 then 12 else 11)"
    and "rowData c lt idx ! 3 = lt"
    and "rowData c lt idx ! idx = orEmpty (autoDescription c)"
  using assms by (auto simp: rowData_def Let_def)

lemma validateRow_cells:
  assumes "length row = (if idx = 11 then 12 else 11)" and "idx = 10 \<or> idx = 11"
  shows "validateRow row idx =
           (if row ! 3 \<noteq> [] \<and> row ! idx \<noteq> [] \<and> row ! 3 = row ! idx
            then Some (ValidationError ''Listing Title and Auto Description cannot be identical'')
            else if row ! 3 \<noteq> [] \<and> row ! idx \<noteq> [] \<and> length (row ! 3) > length (row ! idx)
            then Some (ValidationError
                   ''Listing Title is longer than Auto Description - fields may be swapped'')
            else None)"
proof -
  from assms have a3: "at row 3 = Some (row ! 3)" and ai: "at row idx = Some (row ! idx)"
    by (auto simp: at_def)
  from assms(1) show ?thesis
    unfolding validateRow_def Let_def a3 ai by (simp add: truthy_def orEmpty_def)
qed

lemma buildRow_cases:
  assumes "idx = 10 \<or> idx = 11"
  shows "buildRow c lt idx =
           (if lt \<noteq> [] \<and> orEmpty (autoDescription c) \<noteq> [] \<and>
               (lt = orEmpty (autoDescription c) \<or>
                length lt > length (orEmpty (autoDescription c)))
            then Inl (ValidationError
                   (if lt = orEmpty (autoDescription c)
                    then ''Listing Title and Auto Description cannot be identical''
                    else ''Listing Title is longer than Auto Description - fields may be swapped''))
            else Inr (rowData c lt idx))"
proof -
  note sh = rowData_shape [OF assms, of c lt]
  have v: "validateRow (rowData c lt idx) idx =
           (if lt \<noteq> [] \<and> orEmpty (autoDescription c) \<noteq> [] \<and>
               lt = orEmpty (autoDescription c)
            then Some (ValidationError ''Listing Title and Auto Description cannot be identical'')
            else if lt \<noteq> [] \<and> orEmpty (autoDescription c) \<noteq> [] \<and>
                    length lt > length (orEmpty (autoDescription c))
            then Some (ValidationError
                   ''Listing Title is longer than Auto Description - fields may be swapped'')
            else None)"
    using validateRow_cells [OF sh(1) assms] unfolding sh(2) sh(3) .
  have b: "buildRow c lt idx =
     (case validateRow (rowData c lt idx) idx of
        Some e \<Rightarrow> Inl e | None \<Rightarrow> Inr (rowData c lt idx))"
    by (simp add: buildRow_def Let_def)
  show ?thesis unfolding b v by simp
qed

text \<open>
  Claim C4, as amended. For every record, listing title and classified description
  column index, the row has the schema's length (12 when the index is 11, else 11),
  cell 3 is the listing title and the cell at the index is the description; the build
  fails with a validation error if and only if cell 3 and the description cell are both
  non-empty and either equal or cell 3 the longer; otherwise it succeeds with the row.
\<close>

theorem buildRow_fails_iff:
  assumes "idx = fst (classifyHeaders vals)"
  shows "length (rowData c lt idx) = (if idx = 11 then 12 else 11) \<and>
         rowData c lt idx ! 3 = lt \<and>
         rowData c lt idx ! idx = orEmpty (autoDescription c) \<and>
         buildRow c lt idx =
           (if rowData c lt idx ! 3 \<noteq> [] \<and> rowData c lt idx ! idx \<noteq> [] \<and>
               (rowData c lt idx ! 3 = rowData c lt idx ! idx \<or>
                length (rowData c lt idx ! 3) > length (rowData c lt idx ! idx))
            then Inl (ValidationError
                   (if rowData c lt idx ! 3 = rowData c lt idx ! idx
                    then ''Listing Title and Auto Description cannot be identical''
                    else ''Listing Title is longer than Auto Description - fields may be swapped''))
            else Inr (rowData c lt idx))"
proof -
  from assms classify_index [of vals] have i: "idx = 10 \<or> idx = 11" by simp
  note sh = rowData_shape [OF i, of c lt]
  show ?thesis unfolding sh(2) sh(3) using sh(1) buildRow_cases [OF i, of c lt] by simp
qed

theorem buildRow_fails_iff_witness:
  "buildRow
     \<lparr>normalized = noFields, autoTitle = Some ''Hello World'',
      autoDescription = Some ''Short''\<rparr>
     ''Hello World'' 10 =
   Inl (ValidationError
          ''Listing Title is longer than Auto Description - fields may be swapped'')"
  using buildRow_fails_iff
    [of 10 "[]" "\<lparr>normalized = noFields, autoTitle = Some ''Hello World'',
                   autoDescription = Some ''Short''\<rparr>" "''Hello World''"]
  by (simp add: classifyHeaders_def rowData_def orEmpty_def)

text \<open>
  Claim C4 as stated fails: on a record with a title and no description, cell 3 is
  longer than the empty description cell, and the build succeeds.
\<close>

theorem buildRow_unguarded_counterexample:
  "buildRow
     \<lparr>normalized = noFields, autoTitle = Some ''1986 Fleer Michael Jordan'',
      autoDescription = None\<rparr>
     (sheetsListingTitle
        \<lparr>normalized = noFields, autoTitle = Some ''1986 Fleer Michael Jordan'',
         autoDescription = None\<rparr>)
     (fst (classifyHeaders [])) =
   Inr [[], [], [], ''1986 Fleer Michael Jordan'', [], [], [], [], [], [], []] \<and>
   length ([[], [], [], ''1986 Fleer Michael Jordan'', [], [], [], [], [], [], []] ! 3) >
   length ([[], [], [], ''1986 Fleer Michael Jordan'', [], [], [], [], [], [], []] ! 10)"
  by (simp add: buildRow_def validateRow_def rowData_def at_def sheetsListingTitle_def
      truthy_def orEmpty_def trim_def classifyHeaders_def isSpace_def)

section \<open>Properties of the listing title\<close>

lemmas eval_defs = sheetsTry_def sheetsHandler_def sheetsExport_def writeSheet_def
  buildRow_def validateRow_def rowData_def at_def headers_def classifyHeaders_def
  sheetsListingTitle_def csvListingTitle_def csvHandler_def csvData_def
  safetyCheck_def needsSwap_def swapFields_def truthy_def orEmpty_def trim_def isSpace_def
  resolveSpreadsheetId_def resolveSheetName_def credentialsMissing_def credentialsResponse_def
  errorMessage_def raised_def isValuesUpdate_def isWrite_def Let_def

text \<open>
  After an exchange whose new title is not blank, the listing title is the former
  description, below 100 characters, and the description the former title, above 200.
\<close>

lemma swapped_listingTitle:
  assumes "needsSwap c" and "trim (orEmpty (autoDescription c)) \<noteq> []"
  shows "csvListingTitle (swapFields c) = orEmpty (autoDescription c)"
    and "length (orEmpty (autoDescription c)) < 100"
    and "length (orEmpty (autoDescription (swapFields c))) > 200"
proof -
  from assms(1) obtain t d where td: "autoTitle c = Some t" "autoDescription c = Some d"
    "t \<noteq> []" "d \<noteq> []" "length t > 200" "length d < 100"
    by (auto simp: needsSwap_def split: option.splits)
  from td have ne: "d \<noteq> t" by auto
  from td assms(2) have tr: "trim d \<noteq> []" by (simp add: orEmpty_def)
  from td have sw: "autoTitle (swapFields c) = Some d" "autoDescription (swapFields c) = Some t"
    by (simp_all add: swapFields_def)
  from td ne tr show "csvListingTitle (swapFields c) = orEmpty (autoDescription c)"
    by (simp add: csvListingTitle_def sw truthy_def orEmpty_def)
  from td show "length (orEmpty (autoDescription c)) < 100" by (simp add: orEmpty_def)
  from td show "length (orEmpty (autoDescription (swapFields c))) > 200"
    by (simp add: sw orEmpty_def)
qed

text \<open>
  Claim C1, as amended. The repair chain does not by itself make the listing title at
  most as long as the description. It does so when the swap check fired and the
  exchanged title is not blank: both paths then work with the former description, which
  is shorter than the new one. And every row that the Sheets row build accepts, with the
  listing title and the description both non-empty, has a listing title at most as long
  as the description: there the post-build check enforces it.
\<close>

theorem listingTitle_length_guarantee:
  "(needsSwap c \<longrightarrow> trim (orEmpty (autoDescription c)) \<noteq> [] \<longrightarrow>
      csvListingTitle (swapFields c) = orEmpty (autoDescription c) \<and>
      sheetsListingTitle (swapFields c) = orEmpty (autoDescription c) \<and>
      length (orEmpty (autoDescription c)) <
        length (orEmpty (autoDescription (swapFields c)))) \<and>
   (buildRow c' (sheetsListingTitle c') (fst (classifyHeaders vals)) = Inr row \<longrightarrow>
      sheetsListingTitle c' \<noteq> [] \<longrightarrow> orEmpty (autoDescription c') \<noteq> [] \<longrightarrow>
      row ! 3 = sheetsListingTitle c' \<and>
      row ! fst (classifyHeaders vals) = orEmpty (autoDescription c') \<and>
      length (sheetsListingTitle c') \<le> length (orEmpty (autoDescription c')))"
proof -
  have swap: "csvListingTitle (swapFields c) = orEmpty (autoDescription c) \<and>
      sheetsListingTitle (swapFields c) = orEmpty (autoDescription c) \<and>
      length (orEmpty (autoDescription c)) < length (orEmpty (autoDescription (swapFields c)))"
    if n: "needsSwap c" and t: "trim (orEmpty (autoDescription c)) \<noteq> []"
  proof -
    note s = swapped_listingTitle [OF n t]
    from n have d: "autoDescription (swapFields c) \<noteq> Some (orEmpty (autoDescription c))"
      using s(2) s(3) by (auto simp: orEmpty_def)
    have "sheetsListingTitle (swapFields c) = csvListingTitle (swapFields c)"
      using d by (simp add: sheets_final_check s(1))
    with s show ?thesis by simp
  qed
  have build: "row ! 3 = sheetsListingTitle c' \<and>
      row ! fst (classifyHeaders vals) = orEmpty (autoDescription c') \<and>
      length (sheetsListingTitle c') \<le> length (orEmpty (autoDescription c'))"
    if b: "buildRow c' (sheetsListingTitle c') (fst (classifyHeaders vals)) = Inr row"
      and l: "sheetsListingTitle c' \<noteq> []" and d: "orEmpty (autoDescription c') \<noteq> []"
  proof -
    note i = classify_index [of vals]
    from b l d buildRow_cases [OF i, of c' "sheetsListingTitle c'"]
    have r: "row = rowData c' (sheetsListingTitle c') (fst (classifyHeaders vals))"
      and le: "length (sheetsListingTitle c') \<le> length (orEmpty (autoDescription c'))"
      by (auto split: if_splits)
    from rowData_shape [OF i, of c' "sheetsListingTitle c'"] r le show ?thesis by simp
  qed
  from swap build show ?thesis by blast
qed

theorem listingTitle_length_guarantee_witness:
  "needsSwap swappedCard \<and> trim (orEmpty (autoDescription swappedCard)) \<noteq> [] \<and>
   sheetsListingTitle (swapFields swappedCard) = ''1986 Fleer #57'' \<and>
   buildRow shortTitleCard (sheetsListingTitle shortTitleCard) (fst (classifyHeaders [])) =
     Inr [[], [], [], ''Short'', [], [], [], [], [], [], ''Hello World''] \<and>
   length (sheetsListingTitle shortTitleCard) \<le>
     length (orEmpty (autoDescription shortTitleCard))"
proof -
  have n: "needsSwap swappedCard" by (simp add: needsSwap_def)
  have t: "trim (orEmpty (autoDescription swappedCard)) \<noteq> []"
    by (simp add: orEmpty_def trim_def isSpace_def)
  have l: "sheetsListingTitle shortTitleCard = ''Short''"
    by (simp add: sheetsListingTitle_def truthy_def orEmpty_def trim_def isSpace_def)
  have b: "buildRow shortTitleCard (sheetsListingTitle shortTitleCard)
             (fst (classifyHeaders [])) =
           Inr [[], [], [], ''Short'', [], [], [], [], [], [], ''Hello World'']"
    unfolding l
    by (simp add: buildRow_def validateRow_def rowData_def at_def truthy_def orEmpty_def
        classifyHeaders_def)
  from listingTitle_length_guarantee
    [of swappedCard shortTitleCard "[]"
        "[[], [], [], ''Short'', [], [], [], [], [], [], ''Hello World'']"]
    n t b l
  show ?thesis by (simp add: orEmpty_def)
qed

text \<open>
  Claim C1 as stated fails: an 11-character title and a 5-character description pass
  the swap check and the whole chain unchanged, in both paths.
\<close>

theorem listingTitle_longer_counterexample:
  "safetyCheck [''card-1'' \<mapsto> longTitleCard] ''card-1'' longTitleCard =
     (longTitleCard, [''card-1'' \<mapsto> longTitleCard]) \<and>
   csvListingTitle longTitleCard = ''Hello World'' \<and>
   sheetsListingTitle longTitleCard = ''Hello World'' \<and>
   autoDescription longTitleCard = Some ''Short'' \<and>
   length ''Hello World'' > length ''Short''"
  by (simp add: safetyCheck_def needsSwap_def csvListingTitle_def sheetsListingTitle_def
      truthy_def orEmpty_def trim_def isSpace_def)

text \<open>
  Claim C2. The claim says the exported listing title never equals a non-empty
  description. The identity check of the chain falls back to \<open>normalized.title\<close>
  without comparing it with the description: on a record without \<open>autoTitle\<close> whose
  normalized title is the description, the CSV export carries the same text in
  \<open>Listing Title\<close> and \<open>Auto Description\<close>.
\<close>

theorem csv_title_equals_description:
  "csvHandler
     [''card-1'' \<mapsto>
        \<lparr>normalized = noFields\<lparr>title := ''1986 Fleer Michael Jordan''\<rparr>, autoTitle = None,
         autoDescription = Some ''1986 Fleer Michael Jordan''\<rparr>]
     (Some ''card-1'') =
   (CsvAttachment ''card-1''
      [(''Year'', []), (''Set'', []), (''Card Number'', []),
       (''Listing Title'', ''1986 Fleer Michael Jordan''),
       (''Player First Name'', []), (''Player Last Name'', []), (''Grading Company'', []),
       (''Grade'', []), (''Cert'', []), (''Listing Caption'', []),
       (''Auto Description'', ''1986 Fleer Michael Jordan'')],
    [''card-1'' \<mapsto>
        \<lparr>normalized = noFields\<lparr>title := ''1986 Fleer Michael Jordan''\<rparr>, autoTitle = None,
         autoDescription = Some ''1986 Fleer Michael Jordan''\<rparr>])"
  by (simp add: eval_defs)

section \<open>Properties of the handlers\<close>

lemma safetyCheck_eq:
  "safetyCheck store cardId c =
     (if needsSwap c then swapFields c else c,
      if needsSwap c then store(cardId \<mapsto> swapFields c) else store)"
  by (simp add: safetyCheck_def)

lemma csvHandler_store:
  assumes "store cardId = Some c" and "cardId \<noteq> []"
  shows "snd (csvHandler store (Some cardId)) =
           (if needsSwap c then store(cardId \<mapsto> swapFields c) else store)"
  using assms by (simp add: csvHandler_def truthy_def orEmpty_def safetyCheck_eq)

lemma sheetsTry_store:
  assumes "store cardId = Some c" and "cardId \<noteq> []" and "bodyCardId body = Some cardId"
  shows "fst (snd (sheetsTry cfg k api store body)) =
           (if needsSwap c then store(cardId \<mapsto> swapFields c) else store)"
  using assms
  by (simp add: sheetsTry_def truthy_def orEmpty_def safetyCheck_eq Let_def split: prod.splits)

lemma sheetsHandler_store:
  "fst (snd (sheetsHandler cfg k api store body)) = fst (snd (sheetsTry cfg k api store body))"
  by (simp add: sheetsHandler_def split: prod.splits sum.splits)

text \<open>
  Claim C8. For every export call, CSV or Sheets, on a present card, the card store
  afterwards is the store before, or the store before with the card's \<open>autoTitle\<close> and
  \<open>autoDescription\<close> exchanged, and this only when the swap check fires; the
  normalized fields of the stored card are the ones before the call.
\<close>

theorem export_preserves_normalized:
  assumes "store cardId = Some c" and "cardId \<noteq> []" and "bodyCardId body = Some cardId"
  shows "snd (csvHandler store (Some cardId)) =
           (if needsSwap c then store(cardId \<mapsto> swapFields c) else store) \<and>
         fst (snd (sheetsHandler cfg k api store body)) =
           (if needsSwap c then store(cardId \<mapsto> swapFields c) else store) \<and>
         swapFields c = c\<lparr>autoTitle := autoDescription c, autoDescription := autoTitle c\<rparr> \<and>
         map_option normalized (snd (csvHandler store (Some cardId)) cardId) =
           Some (normalized c) \<and>
         map_option normalized (fst (snd (sheetsHandler cfg k api store body)) cardId) =
           Some (normalized c)"
  using assms
  by (simp add: csvHandler_store sheetsHandler_store
      sheetsTry_store [of store cardId c body] swapFields_def)

theorem export_preserves_normalized_witness:
  "map_option normalized
     (snd (csvHandler [''card-1'' \<mapsto> swappedCard] (Some ''card-1'')) ''card-1'') =
     Some noFields \<and>
   map_option normalized
     (fst (snd (sheetsHandler (sampleConfig ''production'') True (sampleApi [''Cards''] [])
                  [''card-1'' \<mapsto> swappedCard] sampleBody)) ''card-1'') =
     Some noFields \<and>
   fst (snd (sheetsHandler (sampleConfig ''production'') True (sampleApi [''Cards''] [])
               [''card-1'' \<mapsto> swappedCard] sampleBody)) =
     [''card-1'' \<mapsto> swapFields swappedCard]"
  using export_preserves_normalized
    [of "[''card-1'' \<mapsto> swappedCard]" "''card-1''" swappedCard sampleBody
        "sampleConfig ''production''" True "sampleApi [''Cards''] []"]
  by (simp add: needsSwap_def)

lemma config_sheetName: "sheetName (config env jt) \<noteq> []"
  by (simp add: config_def envOr_def split: option.splits)

lemma resolveSheetName_config:
  "resolveSheetName (config env jt) body = sheetName (config env jt)"
  by (simp add: resolveSheetName_def config_sheetName)

lemma raised_not_validation: "raised r \<noteq> ValidationError m"
  by (cases r) (simp_all add: raised_def)

lemma sheetsExport_validation_calls:
  assumes "sheetsExport api sid tab c lt = (Inl (ValidationError m), cs)"
  shows "cs = [SpreadsheetsGet sid, SpreadsheetsGet sid, ValuesGet sid (tab @ ''!A:Z'')] \<or>
         cs = [SpreadsheetsGet sid, SpreadsheetsGet sid, BatchUpdateAddSheet sid tab,
               ValuesGet sid (tab @ ''!A:Z'')]"
  using assms
  by (auto simp: sheetsExport_def Let_def raised_not_validation
      split: option.splits sum.splits prod.splits if_splits)

text \<open>
  The three ways through the \<open>try\<close> block: an early return before the card is read,
  an early return after the swap check, or the spreadsheet export.
\<close>

lemma sheetsTry_cases:
  "(\<exists>r. sheetsTry cfg k api store body = (Inr r, store, []) \<and>
        (r = ErrorJson 400 ''Card ID is required'' None \<or>
         r = ErrorJson 404 ''Card not found'' None)) \<or>
   (\<exists>store' r. sheetsTry cfg k api store body = (Inr r, store', []) \<and>
        ((\<exists>msg. r = ErrorJson 400 msg None) \<or> r = credentialsResponse cfg)) \<or>
   (\<exists>c store'. store (orEmpty (bodyCardId body)) = Some c \<and>
        sheetsTry cfg k api store body =
          (fst (sheetsExport api (resolveSpreadsheetId cfg body) (resolveSheetName cfg body)
                  (fst (safetyCheck store (orEmpty (bodyCardId body)) c))
                  (sheetsListingTitle (fst (safetyCheck store (orEmpty (bodyCardId body)) c)))),
           store',
           snd (sheetsExport api (resolveSpreadsheetId cfg body) (resolveSheetName cfg body)
                  (fst (safetyCheck store (orEmpty (bodyCardId body)) c))
                  (sheetsListingTitle
                     (fst (safetyCheck store (orEmpty (bodyCardId body)) c))))))"
  by (auto simp: sheetsTry_def Let_def split: option.splits prod.splits)

text \<open>
  Claim C6, as amended. For every Sheets export call in which the post-build checks
  raise, no \<open>values.update\<close> is issued, neither for the header range nor for the data
  row; the calls issued are the two lookups, the add-sheet request when the tab was
  missing, and the read of the values.
\<close>

theorem validation_failure_no_values_update:
  assumes "sheetsTry cfg k api store body = (Inl (ValidationError m), store', cs)"
  shows "(\<forall>call \<in> set cs. \<not> isValuesUpdate call) \<and>
         (\<exists>sid tab.
            cs = [SpreadsheetsGet sid, SpreadsheetsGet sid, ValuesGet sid (tab @ ''!A:Z'')] \<or>
            cs = [SpreadsheetsGet sid, SpreadsheetsGet sid, BatchUpdateAddSheet sid tab,
                  ValuesGet sid (tab @ ''!A:Z'')])"
proof -
  from sheetsTry_cases [of cfg k api store body] assms
  obtain sid tab c lt where "sheetsExport api sid tab c lt = (Inl (ValidationError m), cs)"
    by (auto simp: prod_eq_iff)
  from sheetsExport_validation_calls [OF this]
  have cs: "cs = [SpreadsheetsGet sid, SpreadsheetsGet sid, ValuesGet sid (tab @ ''!A:Z'')] \<or>
         cs = [SpreadsheetsGet sid, SpreadsheetsGet sid, BatchUpdateAddSheet sid tab,
               ValuesGet sid (tab @ ''!A:Z'')]" .
  then have "\<forall>call \<in> set cs. \<not> isValuesUpdate call"
    by (auto simp: isValuesUpdate_def)
  with cs show ?thesis by blast
qed

theorem validation_failure_no_values_update_witness:
  "sheetsTry (sampleConfig ''production'') True (sampleApi [''Cards''] [headers 10])
     [''card-1'' \<mapsto> longTitleCard] sampleBody =
   (Inl (ValidationError
           ''Listing Title is longer than Auto Description - fields may be swapped''),
    [''card-1'' \<mapsto> longTitleCard],
    [SpreadsheetsGet ''sheet-1'', SpreadsheetsGet ''sheet-1'',
     ValuesGet ''sheet-1'' ''Cards!A:Z'']) \<and>
   filter isValuesUpdate
     [SpreadsheetsGet ''sheet-1'', SpreadsheetsGet ''sheet-1'',
      ValuesGet ''sheet-1'' ''Cards!A:Z''] = []"
proof -
  have h: "sheetsTry (sampleConfig ''production'') True (sampleApi [''Cards''] [headers 10])
     [''card-1'' \<mapsto> longTitleCard] sampleBody =
   (Inl (ValidationError
           ''Listing Title is longer than Auto Description - fields may be swapped''),
    [''card-1'' \<mapsto> longTitleCard],
    [SpreadsheetsGet ''sheet-1'', SpreadsheetsGet ''sheet-1'',
     ValuesGet ''sheet-1'' ''Cards!A:Z''])"
    by (simp add: eval_defs)
  from validation_failure_no_values_update [OF h]
  have "\<forall>call \<in> set [SpreadsheetsGet ''sheet-1'', SpreadsheetsGet ''sheet-1'',
                          ValuesGet ''sheet-1'' ''Cards!A:Z'']. \<not> isValuesUpdate call"
    by blast
  then have "filter isValuesUpdate
     [SpreadsheetsGet ''sheet-1'', SpreadsheetsGet ''sheet-1'',
      ValuesGet ''sheet-1'' ''Cards!A:Z''] = []"
    unfolding filter_empty_conv .
  with h show ?thesis by (rule conjI)
qed

text \<open>
  Claim C6 as stated fails: when the tab does not exist yet, the add-sheet request has
  been issued, and the spreadsheet changed, before the post-build checks raise.
\<close>

theorem validation_failure_addSheet_counterexample:
  "sheetsTry (sampleConfig ''development'') True (sampleApi [''Sheet1''] [])
     [''card-1'' \<mapsto> longTitleCard] sampleBody =
   (Inl (ValidationError
           ''Listing Title is longer than Auto Description - fields may be swapped''),
    [''card-1'' \<mapsto> longTitleCard],
    [SpreadsheetsGet ''sheet-1'', SpreadsheetsGet ''sheet-1'',
     BatchUpdateAddSheet ''sheet-1'' ''Cards'', ValuesGet ''sheet-1'' ''Cards!A:Z'']) \<and>
   isWrite (BatchUpdateAddSheet ''sheet-1'' ''Cards'')"
  by (simp add: eval_defs)


lemma credentialsResponse_500: "\<exists>msg. credentialsResponse cfg = ErrorJson 500 msg None"
  by (simp add: credentialsResponse_def)






section \<open>The tab name\<close>

lemma startsWith_append: "startsWith (a @ b) (a @ c) = startsWith b c"
  by (induction a) simp_all

lemma writeSheet_calls:
  "\<forall>call \<in> set (snd (writeSheet api sid tab n needs idx row)). callOnTab sid tab call"
  by (auto simp: writeSheet_def Let_def callOnTab_def startsWith_append)

lemma writeSheet_last:
  "\<exists>col. snd (writeSheet api sid tab n needs idx row) \<noteq> [] \<and>
     (fst (writeSheet api sid tab n needs idx row) = None \<longrightarrow>
        last (snd (writeSheet api sid tab n needs idx row)) =
          ValuesUpdate sid (tab @ ''!A'' @ showNat n @ '':'' @ col @ showNat n) row)"
  by (auto simp: writeSheet_def Let_def)

lemma sheetsExport_success_shape:
  assumes "sheetsExport api sid tab c lt = (Inr (SheetsSuccess a b u n), cs)"
  shows "\<exists>pre idx needs row ws.
           writeSheet api sid tab n needs idx row = (None, ws) \<and>
           cs = pre @ ValuesGet sid (tab @ ''!A:Z'') # ws \<and> a = sid \<and> b = tab"
proof (cases "verifyResult api")
  case (Some e)
  with assms show ?thesis by (simp add: sheetsExport_def)
next
  case None
  note v = this
  show ?thesis
  proof (cases "spreadsheetResult api")
    case (Inl e)
    with assms v show ?thesis by (simp add: sheetsExport_def)
  next
    case (Inr titles)
    note t = this
    show ?thesis
    proof (cases "if tab \<in> set titles then None else addSheetResult api")
      case (Some e)
      with assms v t show ?thesis by (simp add: sheetsExport_def Let_def)
    next
      case None
      note ad = this
      show ?thesis
      proof (cases "valuesResult api")
        case (Inl e)
        with assms v t ad show ?thesis by (simp add: sheetsExport_def Let_def)
      next
        case (Inr vals)
        note vr = this
        obtain idx needs where cl: "classifyHeaders vals = (idx, needs)"
          by (cases "classifyHeaders vals")
        show ?thesis
        proof (cases "buildRow c lt idx")
          case (Inl e)
          with assms v t ad vr cl show ?thesis by (simp add: sheetsExport_def Let_def)
        next
          case (Inr row)
          note br = this
          obtain e ws where w: "writeSheet api sid tab (length vals + 1) needs idx row = (e, ws)"
            by (cases "writeSheet api sid tab (length vals + 1) needs idx row")
          show ?thesis
          proof (cases e)
            case (Some r)
            with assms v t ad vr cl br w show ?thesis by (simp add: sheetsExport_def Let_def)
          next
            case None
            with assms v t ad vr cl br w
            have "a = sid" "b = tab" "n = length vals + 1"
              "cs = ([SpreadsheetsGet sid, SpreadsheetsGet sid] @
                     (if tab \<in> set titles then [] else [BatchUpdateAddSheet sid tab])) @
                    ValuesGet sid (tab @ ''!A:Z'') # ws"
              by (auto simp: sheetsExport_def Let_def)
            with w None show ?thesis by blast
          qed
        qed
      qed
    qed
  qed
qed

lemma sheetsExport_success:
  assumes "sheetsExport api sid tab c lt = (Inr (SheetsSuccess a b u n), cs)"
  shows "a = sid \<and> b = tab \<and> ValuesGet sid (tab @ ''!A:Z'') \<in> set cs \<and>
         (\<exists>col row. last cs =
            ValuesUpdate sid (tab @ ''!A'' @ showNat n @ '':'' @ col @ showNat n) row)"
proof -
  from sheetsExport_success_shape [OF assms] obtain pre idx needs row ws where
    w: "writeSheet api sid tab n needs idx row = (None, ws)"
    and cs: "cs = pre @ ValuesGet sid (tab @ ''!A:Z'') # ws" and ab: "a = sid" "b = tab"
    by blast
  from writeSheet_last [of api sid tab n needs idx row] w obtain col where
    "ws \<noteq> []" "last ws = ValuesUpdate sid (tab @ ''!A'' @ showNat n @ '':'' @ col @ showNat n) row"
    by auto
  with cs ab show ?thesis by auto
qed


lemma sheetsExport_calls:
  "\<forall>call \<in> set (snd (sheetsExport api sid tab c lt)). callOnTab sid tab call"
proof (cases "verifyResult api")
  case (Some e)
  then show ?thesis by (simp add: sheetsExport_def callOnTab_def)
next
  case None
  note v = this
  show ?thesis
  proof (cases "spreadsheetResult api")
    case (Inl e)
    with v show ?thesis by (simp add: sheetsExport_def callOnTab_def)
  next
    case (Inr titles)
    note t = this
    show ?thesis
    proof (cases "if tab \<in> set titles then None else addSheetResult api")
      case (Some e)
      with v t show ?thesis by (simp add: sheetsExport_def Let_def callOnTab_def)
    next
      case None
      note ad = this
      show ?thesis
      proof (cases "valuesResult api")
        case (Inl e)
        with v t ad show ?thesis by (simp add: sheetsExport_def Let_def callOnTab_def)
      next
        case (Inr vals)
        note vr = this
        obtain idx needs where cl: "classifyHeaders vals = (idx, needs)"
          by (cases "classifyHeaders vals")
        show ?thesis
        proof (cases "buildRow c lt idx")
          case (Inl e)
          with v t ad vr cl show ?thesis by (simp add: sheetsExport_def Let_def callOnTab_def)
        next
          case (Inr row)
          note br = this
          obtain e ws where w: "writeSheet api sid tab (length vals + 1) needs idx row = (e, ws)"
            by (cases "writeSheet api sid tab (length vals + 1) needs idx row")
          from writeSheet_calls [of api sid tab "length vals + 1" needs idx row] w
          have ws: "\<forall>call \<in> set ws. callOnTab sid tab call" by simp
          from v t ad vr cl br w ws show ?thesis
            by (cases e) (simp_all add: sheetsExport_def Let_def callOnTab_def)
        qed
      qed
    qed
  qed
qed

lemma sheetsHandler_calls:
  "snd (snd (sheetsHandler cfg k api store body)) = snd (snd (sheetsTry cfg k api store body))"
  by (simp add: sheetsHandler_def split: prod.splits sum.splits)

lemma sheetsHandler_success:
  "fst (sheetsHandler cfg k api store body) = SheetsSuccess a b u n \<longleftrightarrow>
   fst (sheetsTry cfg k api store body) = Inr (SheetsSuccess a b u n)"
  by (auto simp: sheetsHandler_def split: prod.splits sum.splits)

lemma sheetsTry_calls:
  "\<forall>call \<in> set (snd (snd (sheetsTry cfg k api store body))).
     callOnTab (resolveSpreadsheetId cfg body) (resolveSheetName cfg body) call"
  using sheetsTry_cases [of cfg k api store body] sheetsExport_calls
  by (auto simp del: split_paired_All split_paired_Ex)

lemma sheetsTry_success:
  assumes "fst (sheetsTry cfg k api store body) = Inr (SheetsSuccess a b u n)"
  shows "a = resolveSpreadsheetId cfg body \<and> b = resolveSheetName cfg body \<and>
         ValuesGet a (b @ ''!A:Z'') \<in> set (snd (snd (sheetsTry cfg k api store body))) \<and>
         (\<exists>col row. last (snd (snd (sheetsTry cfg k api store body))) =
            ValuesUpdate a (b @ ''!A'' @ showNat n @ '':'' @ col @ showNat n) row)"
proof -
  from sheetsTry_cases [of cfg k api store body] assms credentialsResponse_500 [of cfg]
  obtain c lt where
    f: "fst (sheetsExport api (resolveSpreadsheetId cfg body) (resolveSheetName cfg body) c lt) =
          Inr (SheetsSuccess a b u n)"
    and s: "snd (snd (sheetsTry cfg k api store body)) =
          snd (sheetsExport api (resolveSpreadsheetId cfg body) (resolveSheetName cfg body) c lt)"
    by auto
  from f have "sheetsExport api (resolveSpreadsheetId cfg body) (resolveSheetName cfg body) c lt =
      (Inr (SheetsSuccess a b u n),
       snd (sheetsExport api (resolveSpreadsheetId cfg body) (resolveSheetName cfg body) c lt))"
    by (simp add: prod_eq_iff)
  from sheetsExport_success [OF this] s show ?thesis by simp
qed


text \<open>
  Claim C10. Under the configuration read from the environment, the tab name is the
  value of \<open>GOOGLE_SHEETS_SHEET_NAME\<close>, or \<open>Cards\<close> when the variable is unset
  or empty, so it is never empty. That name is the one the Sheets handler uses: every
  spreadsheet call it issues addresses that tab, a success response names it, has read
  its values and ends with the update of the data row in it. Whatever \<open>sheetName\<close>
  the request body carries, the handler's response, store and spreadsheet calls are the
  same.
\<close>

theorem sheet_name_from_config:
  assumes "cfg = config env jt"
  shows "sheetName cfg =
           (case env ''GOOGLE_SHEETS_SHEET_NAME'' of
              None \<Rightarrow> ''Cards''
            | Some v \<Rightarrow> if v = [] then ''Cards'' else v) \<and>
         sheetName cfg \<noteq> [] \<and>
         resolveSheetName cfg body = sheetName cfg \<and>
         sheetsHandler cfg k api store (body\<lparr>bodySheetName := other\<rparr>) =
           sheetsHandler cfg k api store body \<and>
         (\<forall>call \<in> set (snd (snd (sheetsHandler cfg k api store body))).
            callOnTab (resolveSpreadsheetId cfg body) (sheetName cfg) call) \<and>
         (fst (sheetsHandler cfg k api store body) = SheetsSuccess a b u n \<longrightarrow>
            b = sheetName cfg \<and>
            ValuesGet a (sheetName cfg @ ''!A:Z'') \<in>
              set (snd (snd (sheetsHandler cfg k api store body))) \<and>
            (\<exists>col row. last (snd (snd (sheetsHandler cfg k api store body))) =
               ValuesUpdate a (sheetName cfg @ ''!A'' @ showNat n @ '':'' @ col @ showNat n)
                 row))"
proof -
  have name: "resolveSheetName cfg body' = sheetName cfg" for body'
    unfolding assms by (rule resolveSheetName_config)
  have r1: "bodyCardId (body\<lparr>bodySheetName := other\<rparr>) = bodyCardId body" by simp
  have r2: "resolveSpreadsheetId cfg (body\<lparr>bodySheetName := other\<rparr>) =
            resolveSpreadsheetId cfg body"
    by (simp add: resolveSpreadsheetId_def)
  have r3: "resolveSheetName cfg (body\<lparr>bodySheetName := other\<rparr>) =
            resolveSheetName cfg body"
    by (simp add: name)
  have "sheetsTry cfg k api store (body\<lparr>bodySheetName := other\<rparr>) =
        sheetsTry cfg k api store body"
    unfolding sheetsTry_def r1 r2 r3 by (rule refl)
  then have indep: "sheetsHandler cfg k api store (body\<lparr>bodySheetName := other\<rparr>) =
     sheetsHandler cfg k api store body"
    by (simp add: sheetsHandler_def)
  have val: "sheetName cfg =
           (case env ''GOOGLE_SHEETS_SHEET_NAME'' of
              None \<Rightarrow> ''Cards''
            | Some v \<Rightarrow> if v = [] then ''Cards'' else v)"
    unfolding assms by (simp add: config_def envOr_def)
  have ne: "sheetName cfg \<noteq> []" unfolding assms by (rule config_sheetName)
  have calls: "\<forall>call \<in> set (snd (snd (sheetsHandler cfg k api store body))).
            callOnTab (resolveSpreadsheetId cfg body) (sheetName cfg) call"
    using sheetsTry_calls [of cfg k api store body]
    by (simp add: sheetsHandler_calls name)
  have succ: "b = sheetName cfg \<and>
            ValuesGet a (sheetName cfg @ ''!A:Z'') \<in>
              set (snd (snd (sheetsHandler cfg k api store body))) \<and>
            (\<exists>col row. last (snd (snd (sheetsHandler cfg k api store body))) =
               ValuesUpdate a (sheetName cfg @ ''!A'' @ showNat n @ '':'' @ col @ showNat n)
                 row)"
    if "fst (sheetsHandler cfg k api store body) = SheetsSuccess a b u n"
  proof -
    from that have "fst (sheetsTry cfg k api store body) = Inr (SheetsSuccess a b u n)"
      by (simp add: sheetsHandler_success)
    from sheetsTry_success [OF this] show ?thesis
      unfolding sheetsHandler_calls name by blast
  qed
  from val ne name indep calls succ show ?thesis by blast
qed

theorem sheet_name_from_config_witness:
  "sheetName (config [''GOOGLE_SHEETS_SHEET_NAME'' \<mapsto> ''Inventory'',
                      ''GOOGLE_SHEETS_SPREADSHEET_ID'' \<mapsto> ''sheet-1''] (\<lambda>v. False)) =
     ''Inventory'' \<and>
   sheetName (config Map.empty (\<lambda>v. False)) = ''Cards'' \<and>
   sheetsHandler
     (config [''GOOGLE_SHEETS_SHEET_NAME'' \<mapsto> ''Inventory'',
              ''GOOGLE_SHEETS_SPREADSHEET_ID'' \<mapsto> ''sheet-1''] (\<lambda>v. False))
     True (sampleApi [''Inventory''] [headers 10]) [''card-1'' \<mapsto> shortTitleCard]
     \<lparr>bodyCardId = Some ''card-1'', bodySpreadsheetId = None, bodySheetName = Some ''Other''\<rparr> =
   (SheetsSuccess ''sheet-1'' ''Inventory'' ''https://docs.google.com/spreadsheets/d/sheet-1'' 2,
    [''card-1'' \<mapsto> shortTitleCard],
    [SpreadsheetsGet ''sheet-1'', SpreadsheetsGet ''sheet-1'',
     ValuesGet ''sheet-1'' ''Inventory!A:Z'',
     ValuesUpdate ''sheet-1'' ''Inventory!A2:K2''
       [[], [], [], ''Short'', [], [], [], [], [], [], ''Hello World'']])"
proof -
  have h: "sheetsHandler
     (config [''GOOGLE_SHEETS_SHEET_NAME'' \<mapsto> ''Inventory'',
              ''GOOGLE_SHEETS_SPREADSHEET_ID'' \<mapsto> ''sheet-1''] (\<lambda>v. False))
     True (sampleApi [''Inventory''] [headers 10]) [''card-1'' \<mapsto> shortTitleCard]
     \<lparr>bodyCardId = Some ''card-1'', bodySpreadsheetId = None, bodySheetName = Some ''Other''\<rparr> =
   (SheetsSuccess ''sheet-1'' ''Inventory'' ''https://docs.google.com/spreadsheets/d/sheet-1'' 2,
    [''card-1'' \<mapsto> shortTitleCard],
    [SpreadsheetsGet ''sheet-1'', SpreadsheetsGet ''sheet-1'',
     ValuesGet ''sheet-1'' ''Inventory!A:Z'',
     ValuesUpdate ''sheet-1'' ''Inventory!A2:K2''
       [[], [], [], ''Short'', [], [], [], [], [], [], ''Hello World'']])"
    by (simp add: eval_defs config_def envOr_def showNat.simps)
  from sheet_name_from_config
    [OF refl, of "[''GOOGLE_SHEETS_SHEET_NAME'' \<mapsto> ''Inventory'',
                   ''GOOGLE_SHEETS_SPREADSHEET_ID'' \<mapsto> ''sheet-1'']" "\<lambda>v. False"]
  have a: "sheetName (config [''GOOGLE_SHEETS_SHEET_NAME'' \<mapsto> ''Inventory'',
                      ''GOOGLE_SHEETS_SPREADSHEET_ID'' \<mapsto> ''sheet-1''] (\<lambda>v. False)) =
     ''Inventory''"
    by simp
  from sheet_name_from_config [OF refl, of Map.empty "\<lambda>v. False"]
  have b: "sheetName (config Map.empty (\<lambda>v. False)) = ''Cards''" by simp
  from a b h show ?thesis by simp
qed

end
